theory Spec2Isabelle
  imports Complex_Main
begin

section \<open>Text: characters, lines, tokens\<close>

text \<open>
  Python text is modelled as \<^typ>\<open>string\<close>, one \<^typ>\<open>char\<close> per code point, for the
  code points U+0000 to U+00FF. The character predicates below are those of CPython on that
  range.
\<close>

definition code :: "char \<Rightarrow> nat" where
  "code c = of_char c"

text \<open>\<^verbatim>\<open>str.isspace\<close>, which is also what \<^verbatim>\<open>strip()\<close>, \<^verbatim>\<open>split()\<close> and the pattern
  \<^verbatim>\<open>\s\<close> use.\<close>

definition is_space :: "char \<Rightarrow> bool" where
  "is_space c = (let n = code c in (9 \<le> n \<and> n \<le> 13) \<or> (28 \<le> n \<and> n \<le> 32) \<or> n = 133 \<or> n = 160)"

text \<open>The line boundaries of \<^verbatim>\<open>str.splitlines\<close>.\<close>

definition is_linebreak :: "char \<Rightarrow> bool" where
  "is_linebreak c = (let n = code c in (10 \<le> n \<and> n \<le> 13) \<or> (28 \<le> n \<and> n \<le> 30) \<or> n = 133)"

definition is_digit :: "char \<Rightarrow> bool" where
  "is_digit c = (let n = code c in 48 \<le> n \<and> n \<le> 57)"

definition is_upper :: "char \<Rightarrow> bool" where
  "is_upper c = (let n = code c in 65 \<le> n \<and> n \<le> 90)"

definition is_lower :: "char \<Rightarrow> bool" where
  "is_lower c = (let n = code c in 97 \<le> n \<and> n \<le> 122)"

text \<open>The pattern \<^verbatim>\<open>\w\<close>: alphanumeric code points and the underscore.\<close>

definition is_word :: "char \<Rightarrow> bool" where
  "is_word c = (let n = code c in
     is_digit c \<or> is_upper c \<or> is_lower c \<or> n = 95 \<or> n = 170 \<or> n = 178 \<or> n = 179 \<or> n = 181
     \<or> n = 185 \<or> n = 186 \<or> (188 \<le> n \<and> n \<le> 190) \<or> (192 \<le> n \<and> n \<le> 214)
     \<or> (216 \<le> n \<and> n \<le> 246) \<or> 248 \<le> n)"

definition digit_val :: "char \<Rightarrow> nat" where
  "digit_val c = code c - 48"

definition to_lower :: "char \<Rightarrow> char" where
  "to_lower c = (if is_upper c then char_of (code c + 32) else c)"

text \<open>\<^verbatim>\<open>s.strip()\<close>\<close>

definition py_strip :: "string \<Rightarrow> string" where
  "py_strip s = rev (dropWhile is_space (rev (dropWhile is_space s)))"

text \<open>\<^verbatim>\<open>s.split()\<close>: the maximal runs of non-space characters.\<close>

fun split_acc :: "string \<Rightarrow> string \<Rightarrow> string list" where
  "split_acc acc [] = (if acc = [] then [] else [acc])"
| "split_acc acc (c # cs) =
     (if is_space c then (if acc = [] then split_acc [] cs else acc # split_acc [] cs)
      else split_acc (acc @ [c]) cs)"

definition py_split :: "string \<Rightarrow> string list" where
  "py_split s = split_acc [] s"

text \<open>\<^verbatim>\<open>s.splitlines()\<close>: a carriage return directly before a line feed belongs to the
  same boundary, and a final boundary opens no further line.\<close>

fun splitlines_acc :: "string \<Rightarrow> string \<Rightarrow> string list" where
  "splitlines_acc acc [] = (if acc = [] then [] else [acc])"
| "splitlines_acc acc (c # cs) =
     (if c = CHR 0x0D \<and> (case cs of [] \<Rightarrow> False | d # _ \<Rightarrow> d = CHR 0x0A) then splitlines_acc acc cs
      else if is_linebreak c then acc # splitlines_acc [] cs
      else splitlines_acc (acc @ [c]) cs)"

definition splitlines :: "string \<Rightarrow> string list" where
  "splitlines s = splitlines_acc [] s"

text \<open>\<^verbatim>\<open>s.startswith(p)\<close> and \<^verbatim>\<open>p in s\<close>\<close>

definition startswith :: "string \<Rightarrow> string \<Rightarrow> bool" where
  "startswith s p = (take (length p) s = p)"

fun contains :: "string \<Rightarrow> string \<Rightarrow> bool" where
  "contains [] p = (p = [])"
| "contains (c # cs) p = (startswith (c # cs) p \<or> contains cs p)"

section \<open>Numbers\<close>

text \<open>
  A Python float is a finite value, an infinity or a NaN. Finite values are carried as
  exact reals: the rounding of IEEE doubles, and the overflow of a finite result to an
  infinity, are not part of the model.
\<close>

datatype pyfloat = Fin real | PInf | NInf | NaN

fun fneg :: "pyfloat \<Rightarrow> pyfloat" where
  "fneg (Fin r) = Fin (- r)"
| "fneg PInf = NInf"
| "fneg NInf = PInf"
| "fneg NaN = NaN"

fun fadd :: "pyfloat \<Rightarrow> pyfloat \<Rightarrow> pyfloat" where
  "fadd NaN _ = NaN"
| "fadd _ NaN = NaN"
| "fadd (Fin a) (Fin b) = Fin (a + b)"
| "fadd PInf NInf = NaN"
| "fadd NInf PInf = NaN"
| "fadd PInf _ = PInf"
| "fadd NInf _ = NInf"
| "fadd (Fin a) PInf = PInf"
| "fadd (Fin a) NInf = NInf"

text \<open>Division of a float by a positive count.\<close>

fun fdiv_count :: "pyfloat \<Rightarrow> nat \<Rightarrow> pyfloat" where
  "fdiv_count (Fin a) n = Fin (a / real n)"
| "fdiv_count x n = x"

text \<open>\<^verbatim>\<open>t > r\<close> for a float \<open>t\<close> and a finite constant \<open>r\<close>.\<close>

fun fgt :: "pyfloat \<Rightarrow> real \<Rightarrow> bool" where
  "fgt (Fin a) r = (a > r)"
| "fgt PInf r = True"
| "fgt NInf r = False"
| "fgt NaN r = False"

text \<open>\<^verbatim>\<open>t >= r\<close> for a float \<open>t\<close> and a finite constant \<open>r\<close>.\<close>

fun fge :: "pyfloat \<Rightarrow> real \<Rightarrow> bool" where
  "fge (Fin a) r = (a \<ge> r)"
| "fge PInf r = True"
| "fge NInf r = False"
| "fge NaN r = False"

text \<open>The value of a string of decimal digits.\<close>

definition digits_val :: "string \<Rightarrow> nat" where
  "digits_val ds = foldl (\<lambda>acc c. 10 * acc + digit_val c) 0 ds"

text \<open>
  CPython accepts an underscore in a numeric string only directly between two digits;
  it checks this first and then parses the string with the underscores removed.
\<close>

fun underscores_ok :: "char option \<Rightarrow> string \<Rightarrow> bool" where
  "underscores_ok prev [] = (prev \<noteq> Some CHR ''_'')"
| "underscores_ok prev (c # cs) =
     ((if c = CHR ''_'' then (case prev of Some p \<Rightarrow> is_digit p | None \<Rightarrow> False)
       else (prev = Some CHR ''_'' \<longrightarrow> is_digit c))
      \<and> underscores_ok (Some c) cs)"

definition split_sign :: "string \<Rightarrow> bool \<times> string" where
  "split_sign s = (case s of [] \<Rightarrow> (False, [])
     | c # cs \<Rightarrow> if c = CHR ''-'' then (True, cs) else if c = CHR ''+'' then (False, cs) else (False, s))"

text \<open>\<^verbatim>\<open>int(s)\<close> in base ten; \<open>None\<close> is ValueError.\<close>

definition py_int :: "string \<Rightarrow> int option" where
  "py_int s =
     (let t = py_strip s in
      if \<not> underscores_ok None t then None
      else let (neg, ds) = split_sign (filter (\<lambda>c. c \<noteq> CHR ''_'') t) in
        if ds = [] \<or> \<not> list_all is_digit ds then None
        else Some (if neg then - int (digits_val ds) else int (digits_val ds)))"

text \<open>The exponent part of a decimal literal: empty, or \<^verbatim>\<open>e\<close> with an optional sign and at
  least one digit.\<close>

definition parse_exponent :: "string \<Rightarrow> int option" where
  "parse_exponent s = (case s of [] \<Rightarrow> Some 0
     | c # cs \<Rightarrow>
        if c = CHR ''e'' \<or> c = CHR ''E'' then
          (let (neg, ds) = split_sign cs in
           if ds = [] \<or> \<not> list_all is_digit ds then None
           else Some (if neg then - int (digits_val ds) else int (digits_val ds)))
        else None)"

text \<open>A decimal literal without sign: digits, an optional point and digits, an optional
  exponent, with at least one digit before the exponent.\<close>

definition parse_decimal :: "string \<Rightarrow> real option" where
  "parse_decimal s =
     (let ip = takeWhile is_digit s; r1 = dropWhile is_digit s;
          has_point = (case r1 of [] \<Rightarrow> False | c # _ \<Rightarrow> c = CHR ''.'');
          fp = (if has_point then takeWhile is_digit (tl r1) else []);
          r2 = (if has_point then dropWhile is_digit (tl r1) else r1)
      in if ip = [] \<and> fp = [] then None
         else case parse_exponent r2 of None \<Rightarrow> None
           | Some e \<Rightarrow>
               let m = real (digits_val (ip @ fp)); x = e - int (length fp)
               in Some (if 0 \<le> x then m * 10 ^ nat x else m / 10 ^ nat (- x)))"

text \<open>\<^verbatim>\<open>float(s)\<close>; \<open>None\<close> is ValueError.\<close>

definition py_float :: "string \<Rightarrow> pyfloat option" where
  "py_float s =
     (let t = py_strip s in
      if \<not> underscores_ok None t then None
      else let (neg, body) = split_sign (filter (\<lambda>c. c \<noteq> CHR ''_'') t);
               low = map to_lower body;
               v = (if low = ''inf'' \<or> low = ''infinity'' then Some PInf
                    else if low = ''nan'' then Some NaN
                    else map_option Fin (parse_decimal body))
           in map_option (\<lambda>x. if neg then fneg x else x) v)"

section \<open>Regular expressions\<close>

text \<open>
  The patterns of the program are sequences of literals, single characters of a class,
  repeated classes (with a minimum count, greedy or lazy, captured as a group or not) and
  optional non-capturing groups. \<open>rmatch\<close> matches such a sequence at the start of a
  string by backtracking, in the order in which Python's \<^verbatim>\<open>re\<close> tries the
  alternatives, and returns the groups and the text that follows the match. No pattern of
  the program has a group inside an optional part.
\<close>

datatype atom = Lit string | One "char \<Rightarrow> bool" | Rep "char \<Rightarrow> bool" nat bool bool | Opt "atom list"

fun atom_size :: "atom \<Rightarrow> nat" where
  "atom_size (Lit l) = 1"
| "atom_size (One c) = 1"
| "atom_size (Rep c lo greedy cap) = 1"
| "atom_size (Opt q) = Suc (sum_list (map atom_size q))"

fun downfrom :: "nat \<Rightarrow> nat \<Rightarrow> nat list" where
  "downfrom lo 0 = (if lo = 0 then [0] else [])"
| "downfrom lo (Suc h) = (if lo \<le> Suc h then Suc h # downfrom lo h else [])"

text \<open>The lengths a repetition may take, in the order they are tried.\<close>

definition candidates :: "nat \<Rightarrow> nat \<Rightarrow> bool \<Rightarrow> nat list" where
  "candidates lo hi greedy = (if greedy then downfrom lo hi else rev (downfrom lo hi))"

fun first_some :: "('a \<Rightarrow> 'b option) \<Rightarrow> 'a list \<Rightarrow> 'b option" where
  "first_some f [] = None"
| "first_some f (x # xs) = (case f x of Some r \<Rightarrow> Some r | None \<Rightarrow> first_some f xs)"

lemma first_some_cong [fundef_cong]:
  "xs = ys \<Longrightarrow> (\<And>x. x \<in> set ys \<Longrightarrow> f x = g x) \<Longrightarrow> first_some f xs = first_some g ys"
  by (induction ys arbitrary: xs) (auto split: option.splits)

function rmatch :: "atom list \<Rightarrow> string \<Rightarrow> string list \<Rightarrow> (string list \<times> string) option" where
  "rmatch [] s caps = Some (caps, s)"
| "rmatch (Lit l # ps) s caps =
     (if startswith s l then rmatch ps (drop (length l) s) caps else None)"
| "rmatch (One c # ps) s caps =
     (case s of [] \<Rightarrow> None | x # xs \<Rightarrow> if c x then rmatch ps xs caps else None)"
| "rmatch (Rep c lo greedy cap # ps) s caps =
     first_some (\<lambda>j. rmatch ps (drop j s) (if cap then caps @ [take j s] else caps))
       (candidates lo (length (takeWhile c s)) greedy)"
| "rmatch (Opt q # ps) s caps =
     (case rmatch (q @ ps) s caps of Some r \<Rightarrow> Some r | None \<Rightarrow> rmatch ps s caps)"
  by pat_completeness auto
termination
  by (relation "measure (\<lambda>(ps, s, caps). sum_list (map atom_size ps))") auto

text \<open>\<^verbatim>\<open>re.match(p, s)\<close>: the groups of a match at the start of \<open>s\<close>.\<close>

definition re_match :: "atom list \<Rightarrow> string \<Rightarrow> string list option" where
  "re_match p s = map_option fst (rmatch p s [])"

text \<open>\<^verbatim>\<open>re.search(p, s)\<close>: the groups of the leftmost match.\<close>

fun re_search :: "atom list \<Rightarrow> string \<Rightarrow> string list option" where
  "re_search p [] = re_match p []"
| "re_search p (c # cs) = (case re_match p (c # cs) of Some g \<Rightarrow> Some g | None \<Rightarrow> re_search p cs)"

text \<open>\<^verbatim>\<open>p.sub('', s)\<close>: every match, from the left, is removed.\<close>

function re_delete :: "atom list \<Rightarrow> string \<Rightarrow> string" where
  "re_delete p [] = []"
| "re_delete p (c # cs) =
     (case rmatch p (c # cs) [] of
        None \<Rightarrow> c # re_delete p cs
      | Some (g, rest) \<Rightarrow> if length rest \<le> length cs then re_delete p rest else c # re_delete p cs)"
  by pat_completeness auto
termination
  by (relation "measure (\<lambda>(p, s). length s)") auto

subsection \<open>The character classes and patterns of the program\<close>

definition cls_any :: "char \<Rightarrow> bool" where
  "cls_any c = (c \<noteq> CHR 0x0A)"

definition cls_nonspace :: "char \<Rightarrow> bool" where
  "cls_nonspace c = (\<not> is_space c)"

definition cls_digit_dot :: "char \<Rightarrow> bool" where
  "cls_digit_dot c = (is_digit c \<or> c = CHR ''.'')"

definition cls_digit_colon :: "char \<Rightarrow> bool" where
  "cls_digit_colon c = (is_digit c \<or> c = CHR '':'')"

definition cls_digit_comma :: "char \<Rightarrow> bool" where
  "cls_digit_comma c = (is_digit c \<or> c = CHR '','')"

definition cls_sensor :: "char \<Rightarrow> bool" where
  "cls_sensor c = (is_upper c \<or> is_digit c \<or> c = CHR ''_'')"

definition cls_hex :: "char \<Rightarrow> bool" where
  "cls_hex c = ((97 \<le> code c \<and> code c \<le> 102) \<or> is_digit c)"

definition cls_word_dot :: "char \<Rightarrow> bool" where
  "cls_word_dot c = (is_word c \<or> c = CHR ''.'')"

definition cls_range :: "nat \<Rightarrow> nat \<Rightarrow> char \<Rightarrow> bool" where
  "cls_range lo hi c = (lo \<le> code c \<and> code c \<le> hi)"

abbreviation sp0 :: atom where "sp0 \<equiv> Rep is_space 0 True False"
abbreviation sp1 :: atom where "sp1 \<equiv> Rep is_space 1 True False"
abbreviation ns1 :: atom where "ns1 \<equiv> Rep cls_nonspace 1 True False"

text \<open>\<^verbatim>\<open>\x1B\[[0-?]*[ -/]*[@-~]\<close>\<close>

definition ansi_escape :: "atom list" where
  "ansi_escape = [Lit [CHR 0x1B, CHR ''[''], Rep (cls_range 48 63) 0 True False,
     Rep (cls_range 32 47) 0 True False, One (cls_range 64 126)]"

text \<open>\<^verbatim>\<open>PID\s+USER\<close>\<close>

definition header_pat :: "atom list" where
  "header_pat = [Lit ''PID'', sp1, Lit ''USER'']"

text \<open>\<^verbatim>\<open>\s*(\d+)\s+(\S+)\s+\S+\s+\S+\s+\S+\s+\S+\s+\S+\s+\S+\s+([\d.]+)\s+([\d.]+)\s+([\d:]+)\s+(\S+)\<close>\<close>

definition cpu_row_strict :: "atom list" where
  "cpu_row_strict =
     [sp0, Rep is_digit 1 True True, sp1, Rep cls_nonspace 1 True True,
      sp1, ns1, sp1, ns1, sp1, ns1, sp1, ns1, sp1, ns1, sp1, ns1,
      sp1, Rep cls_digit_dot 1 True True, sp1, Rep cls_digit_dot 1 True True,
      sp1, Rep cls_digit_colon 1 True True, sp1, Rep cls_nonspace 1 True True]"

text \<open>The same with \<^verbatim>\<open>(.+)\<close> as its last group.\<close>

definition cpu_row_loose :: "atom list" where
  "cpu_row_loose =
     [sp0, Rep is_digit 1 True True, sp1, Rep cls_nonspace 1 True True,
      sp1, ns1, sp1, ns1, sp1, ns1, sp1, ns1, sp1, ns1, sp1, ns1,
      sp1, Rep cls_digit_dot 1 True True, sp1, Rep cls_digit_dot 1 True True,
      sp1, Rep cls_digit_colon 1 True True, sp1, Rep cls_any 1 True True]"

text \<open>\<^verbatim>\<open>\s*([\d,]+)K: (.+?) \(pid (\d+)(?: /.+)?\)\<close>\<close>

definition ram_row :: "atom list" where
  "ram_row =
     [sp0, Rep cls_digit_comma 1 True True, Lit ''K: '', Rep cls_any 1 False True,
      Lit '' (pid '', Rep is_digit 1 True True,
      Opt [Lit '' /'', Rep cls_any 1 True False], Lit '')'']"

text \<open>\<^verbatim>\<open>Temperature\{mValue=([\d.]+), mType=\d+, mName=([A-Z0-9_]+), mStatus=\d+\}\<close>\<close>

definition thermal_pat :: "atom list" where
  "thermal_pat =
     [Lit ''Temperature{mValue='', Rep cls_digit_dot 1 True True,
      Lit '', mType='', Rep is_digit 1 True False,
      Lit '', mName='', Rep cls_sensor 1 True True,
      Lit '', mStatus='', Rep is_digit 1 True False, Lit ''}'']"

text \<open>\<^verbatim>\<open>\s*\* ServiceRecord\{[a-f0-9]+ u\d+ ([\w\.]+)/(\S+)\}\<close>\<close>

definition service_pat :: "atom list" where
  "service_pat =
     [sp0, Lit ''* ServiceRecord{'', Rep cls_hex 1 True False, Lit '' u'',
      Rep is_digit 1 True False, Lit '' '', Rep cls_word_dot 1 True True, Lit ''/'',
      Rep cls_nonspace 1 True True, Lit ''}'']"

section \<open>Running a command\<close>

text \<open>
  What \<^verbatim>\<open>subprocess.run\<close> does is an input of the model: it completes with a return
  code, standard output and standard error, or it raises. Console output is not modelled.
\<close>

datatype run_failure = TimeoutExpired | FileNotFoundError | OtherException

datatype run_result = Completed int string string | Raised run_failure

datatype py_error = ValueError | RuntimeError string | SystemExit int | Uncaught run_failure

fun join_sp :: "string list \<Rightarrow> string" where
  "join_sp [] = []"
| "join_sp [x] = x"
| "join_sp (x # y # ys) = x @ '' '' @ join_sp (y # ys)"

text \<open>\<^verbatim>\<open>run_adb_command\<close> of diagnose.py\<close>

fun run_adb_command :: "string list \<Rightarrow> run_result \<Rightarrow> py_error + string" where
  "run_adb_command cmd (Completed returncode out err) =
     (if returncode \<noteq> 0
      then Inl (RuntimeError (''ADB error: '' @ join_sp cmd @ [CHR 0x0A] @ py_strip err))
      else Inr out)"
| "run_adb_command cmd (Raised FileNotFoundError) = Inl (SystemExit 1)"
| "run_adb_command cmd (Raised TimeoutExpired) = Inr []"
| "run_adb_command cmd (Raised OtherException) = Inl (Uncaught OtherException)"

text \<open>\<^verbatim>\<open>run_adb\<close> of dashboard.py\<close>

fun run_adb :: "string list \<Rightarrow> run_result \<Rightarrow> string" where
  "run_adb cmd (Completed returncode out err) = (if returncode \<noteq> 0 then [] else out)"
| "run_adb cmd (Raised e) = []"

section \<open>Source parsers\<close>

text \<open>
  diagnose.py and dashboard.py hold the same text for \<^verbatim>\<open>strip_ansi\<close> and for the
  process-table, memory and thermal parsers; one definition stands for both copies.
\<close>

definition strip_ansi :: "string \<Rightarrow> string" where
  "strip_ansi text = re_delete ansi_escape text"

subsection \<open>Process table\<close>

record process =
  pid :: int
  user :: string
  cpu :: pyfloat
  mem :: pyfloat
  time :: string
  name :: string

definition is_header :: "string \<Rightarrow> bool" where
  "is_header line = (re_search header_pat line \<noteq> None \<and> contains line ''[%CPU]'')"

text \<open>The lines after the first header line: \<^verbatim>\<open>lines[header_idx+1:]\<close>.\<close>

fun after_header :: "string list \<Rightarrow> string list option" where
  "after_header [] = None"
| "after_header (l # ls) = (if is_header l then Some ls else after_header ls)"

definition make_process :: "string list \<Rightarrow> py_error + process" where
  "make_process groups = (case groups of
     [g_pid, g_user, g_cpu, g_mem, g_time, g_name] \<Rightarrow>
       (case py_int g_pid of None \<Rightarrow> Inl ValueError | Some p \<Rightarrow>
         (case py_float g_cpu of None \<Rightarrow> Inl ValueError | Some c \<Rightarrow>
           (case py_float g_mem of None \<Rightarrow> Inl ValueError | Some m \<Rightarrow>
              Inr \<lparr>pid = p, user = g_user, cpu = c, mem = m, time = g_time, name = g_name\<rparr>)))
   | _ \<Rightarrow> Inl ValueError)"

fun cpu_rows :: "string list \<Rightarrow> process list \<Rightarrow> py_error + process list" where
  "cpu_rows [] processes = Inr processes"
| "cpu_rows (line # ls) processes =
     (case re_match cpu_row_strict line of
        Some m \<Rightarrow> (case make_process m of Inl e \<Rightarrow> Inl e
                    | Inr p \<Rightarrow> cpu_rows ls (processes @ [p]))
      | None \<Rightarrow>
         (case re_match cpu_row_loose line of
            Some m2 \<Rightarrow> (case make_process m2 of Inl e \<Rightarrow> Inl e
                         | Inr p \<Rightarrow> cpu_rows ls (processes @ [p]))
          | None \<Rightarrow> cpu_rows ls processes))"

definition collect_cpu_stats_from_raw :: "string \<Rightarrow> py_error + process list" where
  "collect_cpu_stats_from_raw raw =
     (let lines = map strip_ansi (filter (\<lambda>line. py_strip line \<noteq> []) (splitlines raw))
      in case after_header lines of None \<Rightarrow> Inr [] | Some rest \<Rightarrow> cpu_rows rest [])"

subsection \<open>Memory by process\<close>

record app =
  app_name :: string
  app_pid :: int
  ram_mb :: real

text \<open>The lines after the first line that holds the section marker.\<close>

fun after_marker :: "string list \<Rightarrow> string list option" where
  "after_marker [] = None"
| "after_marker (l # ls) =
     (if contains l ''Total RSS by process:'' then Some ls else after_marker ls)"

definition make_app :: "string list \<Rightarrow> py_error + app" where
  "make_app groups = (case groups of
     [kb, g_name, g_pid] \<Rightarrow>
       (case py_int (filter (\<lambda>c. c \<noteq> CHR '','') kb) of None \<Rightarrow> Inl ValueError | Some k \<Rightarrow>
         (case py_int g_pid of None \<Rightarrow> Inl ValueError | Some p \<Rightarrow>
            Inr \<lparr>app_name = g_name, app_pid = p, ram_mb = real_of_int k / 1024\<rparr>))
   | _ \<Rightarrow> Inl ValueError)"

fun ram_rows :: "string list \<Rightarrow> app list \<Rightarrow> py_error + app list" where
  "ram_rows [] apps = Inr apps"
| "ram_rows (line # ls) apps =
     (case re_match ram_row line of
        Some m \<Rightarrow> (case make_app m of Inl e \<Rightarrow> Inl e | Inr a \<Rightarrow> ram_rows ls (apps @ [a]))
      | None \<Rightarrow> if py_strip line = [] then Inr apps else ram_rows ls apps)"

text \<open>\<^verbatim>\<open>apps.sort(key=lambda x: x["ram_mb"], reverse=True)\<close>: a stable sort, descending.\<close>

definition sort_ram_desc :: "app list \<Rightarrow> app list" where
  "sort_ram_desc apps = sort_key (\<lambda>a. - ram_mb a) apps"

definition collect_ram_stats_from_raw :: "string \<Rightarrow> py_error + app list" where
  "collect_ram_stats_from_raw raw =
     (case after_marker (splitlines raw) of
        None \<Rightarrow> Inr []
      | Some rest \<Rightarrow> (case ram_rows rest [] of Inl e \<Rightarrow> Inl e | Inr apps \<Rightarrow> Inr (sort_ram_desc apps)))"

subsection \<open>Thermal sensors\<close>

fun thermal_rows :: "string list \<Rightarrow> (string \<rightharpoonup> pyfloat) \<Rightarrow> py_error + (string \<rightharpoonup> pyfloat)" where
  "thermal_rows [] sensors = Inr sensors"
| "thermal_rows (line # ls) sensors =
     (case re_search thermal_pat line of
        Some m \<Rightarrow> (case m of
            [g_value, g_name] \<Rightarrow> (case py_float g_value of None \<Rightarrow> Inl ValueError
                | Some v \<Rightarrow> thermal_rows ls (sensors(g_name \<mapsto> v)))
          | _ \<Rightarrow> Inl ValueError)
      | None \<Rightarrow> thermal_rows ls sensors)"

definition collect_thermal_info_from_raw :: "string \<Rightarrow> py_error + (string \<rightharpoonup> pyfloat)" where
  "collect_thermal_info_from_raw raw = thermal_rows (splitlines raw) Map.empty"

subsection \<open>Frame profile\<close>

record gfx =
  avg_frame_time_ms :: "pyfloat option"
  jank_frames :: "nat option"
  total_frames :: nat

text \<open>The body of the loop for a line of the section: the frame's time, when the line has
  three tokens and \<^verbatim>\<open>float\<close> accepts each of them.\<close>

definition frame_time :: "string \<Rightarrow> pyfloat option" where
  "frame_time line =
     (let parts = py_split (py_strip line) in
      if length parts = 3 then
        (case map py_float parts of
           [Some draw, Some process, Some execute] \<Rightarrow> Some (fadd (fadd draw process) execute)
         | _ \<Rightarrow> None)
      else None)"

fun gfx_loop :: "string list \<Rightarrow> bool \<Rightarrow> pyfloat list \<Rightarrow> pyfloat list" where
  "gfx_loop [] in_section frame_times = frame_times"
| "gfx_loop (line # ls) in_section frame_times =
     (if contains line ''Profile data in ms:'' then gfx_loop ls True frame_times
      else if in_section then
        (if py_strip line = [] then frame_times
         else case frame_time line of
                Some t \<Rightarrow> gfx_loop ls in_section (frame_times @ [t])
              | None \<Rightarrow> gfx_loop ls in_section frame_times)
      else gfx_loop ls in_section frame_times)"


definition gfx_summary :: "pyfloat list \<Rightarrow> gfx" where
  "gfx_summary frame_times =
     (if frame_times \<noteq> [] then
        \<lparr>avg_frame_time_ms = Some (fdiv_count (foldl fadd (Fin 0) frame_times) (length frame_times)),
         jank_frames = Some (length (filter (\<lambda>t. fgt t 16.67) frame_times)),
         total_frames = length frame_times\<rparr>
      else \<lparr>avg_frame_time_ms = None, jank_frames = None, total_frames = 0\<rparr>)"

definition collect_gfx_stats_from_raw :: "string \<Rightarrow> gfx" where
  "collect_gfx_stats_from_raw raw = gfx_summary (gfx_loop (splitlines raw) False [])"

subsection \<open>Services\<close>

fun service_rows :: "string list \<Rightarrow> string list \<Rightarrow> string list" where
  "service_rows [] services = services"
| "service_rows (line # ls) services =
     (case re_match service_pat line of
        Some [pkg, svc] \<Rightarrow> service_rows ls (services @ [pkg @ ''/'' @ svc])
      | _ \<Rightarrow> service_rows ls services)"

definition collect_services_from_raw :: "string \<Rightarrow> string list" where
  "collect_services_from_raw raw = service_rows (splitlines raw) []"

section \<open>Classifier\<close>

definition system_names :: "string list" where
  "system_names = [
    ''system_server'', ''surfaceflinger'', ''audioserver'', ''mediaserver'', ''zygote'',
      ''init'', ''logd'', ''statsd'', ''adbd'', ''android.hardware'', ''vendor.'',
      ''servicemanager'', ''hwservicemanager'', ''gatekeeperd'', ''keystore2'', ''rild'',
      ''netd'', ''lmkd'', ''cameraserver'', ''drmserver'', ''gpsd'', ''vaultkeeperd'',
      ''watchdogd'', ''traced'', ''traced_probes'', ''tombstoned'', ''ueventd'', ''vold'',
      ''auditd'', ''credstore'', ''perfsdkserver'', ''main_abox'', ''abox_log'',
      ''fabric_crypto'', ''incidentd'', ''iod'', ''cass'', ''smdexe'', ''speg_helper'',
      ''spqr_service'', ''emservice'', ''tzdaemon'', ''prng_seeder'', ''smc_server'',
      ''wlbtd'', ''connfwexe'', ''ddexe'', ''diagexe'', ''cbd'', ''media.swcodec'',
      ''media.extractor'', ''media.metrics'', ''android.system.suspend-service'',
      ''android.hardware.memtrack-service.exynos'', ''android.hardware.bluetooth@1.0-service'',
      ''android.hardware.drm-service.widevine'', ''android.hardware.drm-service.clearkey'',
      ''android.hardware.gatekeeper@1.0-service'',
      ''android.hardware.graphics.allocator@4.0-service'',
      ''android.hardware.graphics.composer@2.2-service'',
      ''android.hardware.power.samsung-service'',
      ''android.hardware.sensors-service.multihal'',
      ''android.hardware.usb@1.3-service.coral'', ''android.hardware.vibrator-service'',
      ''android.hardware.wifi-service'', ''android.hardware.audio.service'',
      ''android.hardware.security.keymint-service'',
      ''android.hardware.security.fkeymaster-service'',
      ''android.hardware.security.drk@2.0-service'',
      ''android.hardware.security.engmode@1.0-service'',
      ''android.hardware.security.proca@2.0-service'', ''vendor.samsung.hardware.'',
      ''samsung.hardware.media.c2@1.2-service'', ''samsung.software.media.c2@1.0-service'',
      ''vaultkeeperd'', ''perfmond'', ''pageboostd'', ''multiclientd'', ''wlbtd'',
      ''kumiho.decoder'', ''gpuservice'', ''vndservicemanager'', ''prey'', ''preyproject'',
      ''android.process.media'', ''android.process.acore'', ''android.process'', ''zygote64'',
      ''zygote'']"

definition is_system_process :: "string \<Rightarrow> bool" where
  "is_system_process nm =
     (if list_ex (\<lambda>n. startswith nm n) system_names then True
      else if CHR ''.'' \<notin> set nm then True
      else False)"

section \<open>Snapshot builder\<close>

record stats =
  top_cpu :: "process list"
  top_ram :: "app list"
  thermal :: "string \<rightharpoonup> pyfloat"
  timestamp :: real
  mem_health :: string
  free_ram :: real
  total_ram :: real

text \<open>The memory health indicator of \<^verbatim>\<open>collect_stats\<close>.\<close>

definition mem_health_of :: "real \<Rightarrow> string" where
  "mem_health_of free =
     (if free < 500 then ''low'' else if free < 1000 then ''medium'' else ''good'')"

text \<open>
  \<^verbatim>\<open>collect_stats\<close> of dashboard.py. Its inputs are what the three commands do and the
  clock. The fields \<^verbatim>\<open>last_updated\<close>, \<^verbatim>\<open>jank\<close> and \<^verbatim>\<open>storage\<close> of the result are left out.
\<close>

definition collect_stats :: "run_result \<Rightarrow> run_result \<Rightarrow> run_result \<Rightarrow> real \<Rightarrow> py_error + stats" where
  "collect_stats r_cpu r_ram r_thermal now =
     (let cpu_raw = run_adb [''adb'', ''shell'', ''top'', ''-m'', ''10'', ''-n'', ''1''] r_cpu;
          ram_raw = run_adb [''adb'', ''shell'', ''dumpsys'', ''meminfo''] r_ram;
          thermal_raw = run_adb [''adb'', ''shell'', ''dumpsys'', ''thermalservice''] r_thermal
      in case (if cpu_raw \<noteq> [] then collect_cpu_stats_from_raw cpu_raw else Inr []) of
           Inl e \<Rightarrow> Inl e
         | Inr c \<Rightarrow>
        (case (if ram_raw \<noteq> [] then collect_ram_stats_from_raw ram_raw else Inr []) of
           Inl e \<Rightarrow> Inl e
         | Inr ram \<Rightarrow>
        (case (if thermal_raw \<noteq> [] then collect_thermal_info_from_raw thermal_raw
               else Inr Map.empty) of
           Inl e \<Rightarrow> Inl e
         | Inr th \<Rightarrow>
            (let total = 4096;
                 used_ram = sum_list (map ram_mb ram);
                 free = total - used_ram
             in Inr \<lparr>top_cpu = take 5 c, top_ram = take 5 ram, thermal = th, timestamp = now,
                     mem_health = mem_health_of free, free_ram = free, total_ram = total\<rparr>))))"

section \<open>Session aggregator\<close>

text \<open>
  The globals of dashboard.py as a state, together with the monitor threads that have
  been started. A monitor thread stands at one of four places of
  \<^verbatim>\<open>session_monitor\<close>: about to test the flag, inside \<^verbatim>\<open>collect_stats\<close> with the
  flag already tested, asleep, or finished. \<open>session_thread\<close> is the thread that the
  last start created. Requests are handled one at a time. The monitor threads run between
  the statements of a handler; which of their steps run there is an input of the
  handler's model.
\<close>

datatype monitor_pc = Testing | Collecting | Sleeping | Exited

record session =
  session_data :: "stats list"
  session_active :: bool
  session_thread :: "nat option"
  monitors :: "monitor_pc list"

definition initial_session :: session where
  "initial_session =
     \<lparr>session_data = [], session_active = False, session_thread = None, monitors = []\<rparr>"

text \<open>
  One step of a thread in \<^verbatim>\<open>session_monitor\<close>. The flag is read only by the test of the
  \<^verbatim>\<open>while\<close>; what \<^verbatim>\<open>collect_stats\<close> returns is appended whatever the flag has become
  in the meantime, and an exception of \<^verbatim>\<open>collect_stats\<close> ends the thread.
\<close>

fun monitor_step :: "py_error + stats \<Rightarrow> monitor_pc \<Rightarrow> session \<Rightarrow> monitor_pc \<times> session" where
  "monitor_step r Testing s = (if session_active s then (Collecting, s) else (Exited, s))"
| "monitor_step (Inr snapshot) Collecting s =
     (Sleeping, s\<lparr>session_data := session_data s @ [snapshot]\<rparr>)"
| "monitor_step (Inl e) Collecting s = (Exited, s)"
| "monitor_step r Sleeping s = (Testing, s)"
| "monitor_step r Exited s = (Exited, s)"

text \<open>A step of the thread with number \<open>i\<close>; \<open>r\<close> is what its \<^verbatim>\<open>collect_stats\<close>
  returns, should the step be the end of a collection.\<close>

definition thread_step :: "nat \<Rightarrow> py_error + stats \<Rightarrow> session \<Rightarrow> session" where
  "thread_step i r s =
     (if i < length (monitors s)
      then (let (pc, s') = monitor_step r (monitors s ! i) s
            in s'\<lparr>monitors := (monitors s')[i := pc]\<rparr>)
      else s)"

fun run_threads :: "(nat \<times> (py_error + stats)) list \<Rightarrow> session \<Rightarrow> session" where
  "run_threads [] s = s"
| "run_threads ((i, r) # steps) s = run_threads steps (thread_step i r s)"

text \<open>
  \<^verbatim>\<open>api_session_start\<close>. \<open>after_flag\<close> and \<open>after_clear\<close> are the steps that threads
  of earlier sessions take after the flag is set and after the history is emptied.
\<close>

definition api_session_start ::
  "(nat \<times> (py_error + stats)) list \<Rightarrow> (nat \<times> (py_error + stats)) list \<Rightarrow> session \<Rightarrow> session" where
  "api_session_start after_flag after_clear s =
     (if \<not> session_active s
      then (let s1 = run_threads after_flag (s\<lparr>session_active := True\<rparr>);
                s2 = run_threads after_clear (s1\<lparr>session_data := []\<rparr>)
            in s2\<lparr>session_thread := Some (length (monitors s2)),
                  monitors := monitors s2 @ [Testing]\<rparr>)
      else s)"

text \<open>
  \<^verbatim>\<open>api_session_stop\<close>: the new state and the sequence written to session.json. The
  handler clears the flag, waits up to two seconds for \<open>session_thread\<close>, and only then
  writes \<open>session_data\<close>; \<open>during\<close> are the steps the monitor threads take while it
  waits. The file system and the response, a status and the file's name, are left out.
\<close>

definition api_session_stop ::
  "(nat \<times> (py_error + stats)) list \<Rightarrow> session \<Rightarrow> session \<times> stats list" where
  "api_session_stop during s =
     (let s1 = s\<lparr>session_active := False\<rparr>;
          s2 = (if session_thread s1 \<noteq> None then run_threads during s1 else s1)
      in (s2, session_data s2))"


section \<open>Evaluation\<close>

text \<open>The defining equations that a concrete run of the model unfolds.\<close>

lemmas chr_eval = code_def is_space_def is_linebreak_def is_digit_def is_upper_def is_lower_def
  is_word_def digit_val_def to_lower_def cls_any_def cls_nonspace_def cls_digit_dot_def
  cls_digit_colon_def cls_digit_comma_def cls_sensor_def cls_hex_def cls_word_dot_def cls_range_def

lemmas txt_eval = py_strip_def py_split_def splitlines_def startswith_def

lemmas num_eval = digits_val_def split_sign_def py_int_def parse_exponent_def parse_decimal_def
  py_float_def

lemmas re_eval = candidates_def re_match_def

lemmas py_eval = chr_eval txt_eval num_eval re_eval

section \<open>The command runner\<close>

text \<open>
  Claim C1 says that both command helpers return the empty string, and never raise, for a
  command that exits non-zero or times out. \<open>run_adb_command\<close> of diagnose.py does not:
  on a non-zero exit it raises RuntimeError inside its \<^verbatim>\<open>try\<close>, and neither of its
  \<^verbatim>\<open>except\<close> clauses catches that.
\<close>

theorem run_adb_command_nonzero_raises:
  "run_adb_command [''adb'', ''devices''] (Completed 1 [] ''error: no devices'')
     = Inl (RuntimeError ''ADB error: adb devices\<newline>error: no devices'')
   \<and> run_adb_command [''adb'', ''devices''] (Completed 1 [] ''error: no devices'') \<noteq> Inr []"
  by (simp add: py_eval)

text \<open>
  Claim C1, as amended: \<open>run_adb\<close> of dashboard.py returns the empty string for a
  command that exits non-zero or times out; \<open>run_adb_command\<close> of diagnose.py returns
  the empty string for a command that times out, and raises RuntimeError, with the command
  and its stripped standard error in the message, for a command that exits non-zero.
\<close>

theorem runner_failure_results:
  "(returncode \<noteq> 0 \<longrightarrow> run_adb cmd (Completed returncode out err) = [])
   \<and> run_adb cmd (Raised TimeoutExpired) = []
   \<and> run_adb_command cmd (Raised TimeoutExpired) = Inr []
   \<and> (returncode \<noteq> 0 \<longrightarrow> run_adb_command cmd (Completed returncode out err)
          = Inl (RuntimeError (''ADB error: '' @ join_sp cmd @ [CHR 0x0A] @ py_strip err)))"
  by simp

theorem runner_failure_results_witness:
  "(1::int) \<noteq> 0
   \<and> run_adb [''adb'', ''devices''] (Completed 1 ''x'' ''no devices'') = []
   \<and> run_adb [''adb'', ''devices''] (Raised TimeoutExpired) = []
   \<and> run_adb_command [''adb'', ''devices''] (Raised TimeoutExpired) = Inr []
   \<and> run_adb_command [''adb'', ''devices''] (Completed 1 ''x'' ''no devices'')
        = Inl (RuntimeError ''ADB error: adb devices\<newline>no devices'')"
  using runner_failure_results [of 1 "[''adb'', ''devices'']" "''x''" "''no devices''"]
  by (simp add: py_eval)

section \<open>The session\<close>

lemma monitor_step_keeps:
  "\<exists>extra. session_data (snd (monitor_step r pc s)) = session_data s @ extra"
  "session_active (snd (monitor_step r pc s)) = session_active s"
  "session_thread (snd (monitor_step r pc s)) = session_thread s"
  "monitors (snd (monitor_step r pc s)) = monitors s"
  by (cases pc; cases r; simp)+

lemma thread_step_keeps:
  "\<exists>extra. session_data (thread_step i r s) = session_data s @ extra"
  "session_active (thread_step i r s) = session_active s"
  "session_thread (thread_step i r s) = session_thread s"
  using monitor_step_keeps [of r "monitors s ! i" s]
  by (auto simp: thread_step_def split_beta)

lemma run_threads_keeps:
  "\<exists>extra. session_data (run_threads steps s) = session_data s @ extra"
  "session_active (run_threads steps s) = session_active s"
  "session_thread (run_threads steps s) = session_thread s"
proof (induction steps arbitrary: s)
  case Nil
  {
    case 1 show ?case by simp
  next
    case 2 show ?case by simp
  next
    case 3 show ?case by simp
  }
next
  case (Cons step steps)
  obtain i r where step: "step = (i, r)"
    by (cases step)
  {
    case 1
    from Cons.IH(1) [of "thread_step i r s"] thread_step_keeps(1) [of i r s] show ?case
      by (auto simp: step)
  next
    case 2
    from Cons.IH(2) [of "thread_step i r s"] thread_step_keeps(2) [of i r s] show ?case
      by (simp add: step)
  next
    case 3
    from Cons.IH(3) [of "thread_step i r s"] thread_step_keeps(3) [of i r s] show ?case
      by (simp add: step)
  }
qed

lemma stop_writes:
  "\<exists>extra. snd (api_session_stop during s) = session_data s @ extra"
  using run_threads_keeps(1) [of during "s\<lparr>session_active := False\<rparr>"]
  by (auto simp: api_session_stop_def Let_def)

lemma stop_state:
  "session_data (fst (api_session_stop during s)) = snd (api_session_stop during s)"
  "\<not> session_active (fst (api_session_stop during s))"
  by (simp_all add: api_session_stop_def Let_def run_threads_keeps(2))

lemmas session_eval = api_session_start_def api_session_stop_def thread_step_def
  initial_session_def

text \<open>
  Claim C2 says that stopping resets the history, so that a second stop directly after the
  first returns an empty sequence. \<open>api_session_stop\<close> never assigns
  \<open>session_data\<close>. Take a start, a monitor thread that tests the flag and appends its
  snapshot, and two stops during which the thread is asleep: the second stop writes the
  snapshot out again.
\<close>

theorem second_stop_not_empty:
  "snd (api_session_stop [] (fst (api_session_stop []
      (run_threads
         [(0, Inr \<lparr>top_cpu = [], top_ram = [], thermal = Map.empty, timestamp = 0,
                    mem_health = ''good'', free_ram = 4096, total_ram = 4096\<rparr>),
          (0, Inr \<lparr>top_cpu = [], top_ram = [], thermal = Map.empty, timestamp = 0,
                    mem_health = ''good'', free_ram = 4096, total_ram = 4096\<rparr>)]
         (api_session_start [] [] initial_session)))))
   = [\<lparr>top_cpu = [], top_ram = [], thermal = Map.empty, timestamp = 0,
        mem_health = ''good'', free_ram = 4096, total_ram = 4096\<rparr>]
   \<and> snd (api_session_stop [] (fst (api_session_stop []
      (run_threads
         [(0, Inr \<lparr>top_cpu = [], top_ram = [], thermal = Map.empty, timestamp = 0,
                    mem_health = ''good'', free_ram = 4096, total_ram = 4096\<rparr>),
          (0, Inr \<lparr>top_cpu = [], top_ram = [], thermal = Map.empty, timestamp = 0,
                    mem_health = ''good'', free_ram = 4096, total_ram = 4096\<rparr>)]
         (api_session_start [] [] initial_session))))) \<noteq> []"
  by (simp add: session_eval)

text \<open>
  Claim C2, as amended: stopping a session makes it inactive and hands off the accumulated
  ordered sequence of snapshots: what the history holds on entry, followed by what the
  monitor threads append while the handler waits for them. It does not reset the history,
  which stays what was handed off, so a second stop afterwards hands off a sequence that
  begins with the first one. Starting while the session is active changes nothing;
  starting an inactive session makes it active and empties the history.
\<close>

theorem session_stop_start:
  "(\<exists>extra. snd (api_session_stop during s) = session_data s @ extra)
   \<and> session_data (fst (api_session_stop during s)) = snd (api_session_stop during s)
   \<and> \<not> session_active (fst (api_session_stop during s))
   \<and> (\<exists>extra. snd (api_session_stop during2 (run_threads between (fst (api_session_stop during s))))
         = snd (api_session_stop during s) @ extra)
   \<and> (session_active s \<longrightarrow> api_session_start after_flag after_clear s = s)
   \<and> (\<not> session_active s \<longrightarrow>
        session_active (api_session_start after_flag after_clear s)
        \<and> session_data (api_session_start after_flag [] s) = [])"
proof (intro conjI impI)
  show "\<exists>extra. snd (api_session_stop during s) = session_data s @ extra"
    by (rule stop_writes)
  show "session_data (fst (api_session_stop during s)) = snd (api_session_stop during s)"
    by (rule stop_state)
  show "\<not> session_active (fst (api_session_stop during s))"
    by (rule stop_state)
  show "\<exists>extra. snd (api_session_stop during2 (run_threads between (fst (api_session_stop during s))))
         = snd (api_session_stop during s) @ extra"
  proof -
    let ?s1 = "fst (api_session_stop during s)"
    obtain e1 where "session_data (run_threads between ?s1) = session_data ?s1 @ e1"
      using run_threads_keeps(1) by blast
    moreover obtain e2 where "snd (api_session_stop during2 (run_threads between ?s1))
        = session_data (run_threads between ?s1) @ e2"
      using stop_writes by blast
    ultimately show ?thesis
      by (simp add: stop_state(1))
  qed
  show "api_session_start after_flag after_clear s = s" if "session_active s"
    using that by (simp add: api_session_start_def)
  show "session_active (api_session_start after_flag after_clear s)" if "\<not> session_active s"
    using that by (simp add: api_session_start_def Let_def run_threads_keeps(2))
  show "session_data (api_session_start after_flag [] s) = []" if "\<not> session_active s"
    using that by (simp add: api_session_start_def Let_def)
qed

theorem session_stop_start_witness:
  "session_active (api_session_start [] [] initial_session)
   \<and> api_session_start [] [] (api_session_start [] [] initial_session)
       = api_session_start [] [] initial_session
   \<and> \<not> session_active initial_session
   \<and> session_data (api_session_start [] [] initial_session) = []
   \<and> session_data (run_threads
        [(0, Inr \<lparr>top_cpu = [], top_ram = [], thermal = Map.empty, timestamp = 0,
                   mem_health = ''good'', free_ram = 4096, total_ram = 4096\<rparr>)]
        (api_session_start [] [] initial_session)) = []
   \<and> snd (api_session_stop
        [(0, Inr \<lparr>top_cpu = [], top_ram = [], thermal = Map.empty, timestamp = 0,
                   mem_health = ''good'', free_ram = 4096, total_ram = 4096\<rparr>)]
        (run_threads
          [(0, Inr \<lparr>top_cpu = [], top_ram = [], thermal = Map.empty, timestamp = 0,
                     mem_health = ''good'', free_ram = 4096, total_ram = 4096\<rparr>)]
          (api_session_start [] [] initial_session)))
       = [\<lparr>top_cpu = [], top_ram = [], thermal = Map.empty, timestamp = 0,
           mem_health = ''good'', free_ram = 4096, total_ram = 4096\<rparr>]"
  using session_stop_start [of "[]" "api_session_start [] [] initial_session" "[]" "[]" "[]" "[]"]
    session_stop_start [of "[]" initial_session "[]" "[]" "[]" "[]"]
  by (simp add: session_eval)

section \<open>The frame-profile example\<close>

lemma gfx_example_frames:
  "gfx_loop (splitlines
      ''Profile data in ms:\<newline>4.0 2.0 1.0\<newline>20.0 1.0 1.0\<newline>\<newline>'') False []
     = [Fin 7, Fin 22]"
  by (simp add: frame_time_def py_eval)

text \<open>
  Claim C4 says that for the marker line followed by the lines \<^verbatim>\<open>4.0 2.0 1.0\<close> and
  \<^verbatim>\<open>20.0 1.0 1.0\<close> and a blank line the average frame time is 13.5. The two frames take
  7 and 22 milliseconds, and their mean is 14.5.
\<close>

theorem gfx_example_avg_not_13_5:
  "avg_frame_time_ms (collect_gfx_stats_from_raw
      ''Profile data in ms:\<newline>4.0 2.0 1.0\<newline>20.0 1.0 1.0\<newline>\<newline>'')
     \<noteq> Some (Fin 13.5)"
  by (simp add: collect_gfx_stats_from_raw_def gfx_summary_def gfx_example_frames)

text \<open>
  Claim C4, as amended: for that text the frame parser returns an average frame time of
  14.5 milliseconds, one jank frame and two frames in total.
\<close>

theorem gfx_example:
  "collect_gfx_stats_from_raw
      ''Profile data in ms:\<newline>4.0 2.0 1.0\<newline>20.0 1.0 1.0\<newline>\<newline>''
     = \<lparr>avg_frame_time_ms = Some (Fin 14.5), jank_frames = Some 1, total_frames = 2\<rparr>"
  by (simp add: collect_gfx_stats_from_raw_def gfx_summary_def gfx_example_frames)

section \<open>Memory health\<close>

text \<open>
  Claim C6: the memory-health verdict is a function of the free memory alone, with fixed
  bands: low exactly below 500, medium exactly from 500 up to but not including 1000, good
  exactly from 1000 on; so 499.9 is low, 999.99 is medium and 1000 is good. Every result
  of \<open>collect_stats\<close> carries the verdict of its own free memory.
\<close>

theorem mem_health_bands:
  "(mem_health_of f = ''low'' \<longleftrightarrow> f < 500)
   \<and> (mem_health_of f = ''medium'' \<longleftrightarrow> 500 \<le> f \<and> f < 1000)
   \<and> (mem_health_of f = ''good'' \<longleftrightarrow> 1000 \<le> f)
   \<and> mem_health_of 499.9 = ''low''
   \<and> mem_health_of 999.99 = ''medium''
   \<and> mem_health_of 1000.0 = ''good''
   \<and> (collect_stats r_cpu r_ram r_thermal now = Inr st \<longrightarrow>
        mem_health st = mem_health_of (free_ram st))"
  by (auto simp: mem_health_of_def collect_stats_def Let_def split: sum.splits if_splits)

theorem mem_health_bands_witness:
  "collect_stats (Raised TimeoutExpired) (Raised TimeoutExpired) (Raised TimeoutExpired) 0
     = Inr \<lparr>top_cpu = [], top_ram = [], thermal = Map.empty, timestamp = 0,
            mem_health = ''good'', free_ram = 4096, total_ram = 4096\<rparr>
   \<and> mem_health_of 4096 = ''good''"
  using mem_health_bands [of 4096 "Raised TimeoutExpired" "Raised TimeoutExpired"
      "Raised TimeoutExpired" 0]
  by (simp add: collect_stats_def mem_health_of_def)

section \<open>System processes\<close>

text \<open>
  Claim C7: \<open>is_system_process\<close> holds exactly of the names that start with an entry of
  the list of system names or contain no dot; so it holds of \<^verbatim>\<open>zygote\<close> and of
  \<^verbatim>\<open>vendor.qti.something\<close> and not of \<^verbatim>\<open>com.example.app\<close>.
\<close>

theorem is_system_process_iff:
  "is_system_process nm = ((\<exists>n\<in>set system_names. startswith nm n) \<or> CHR ''.'' \<notin> set nm)
   \<and> is_system_process ''zygote''
   \<and> \<not> is_system_process ''com.example.app''
   \<and> is_system_process ''vendor.qti.something''"
proof -
  have general: "is_system_process nm
      = ((\<exists>n\<in>set system_names. startswith nm n) \<or> CHR ''.'' \<notin> set nm)"
    by (simp add: is_system_process_def list_ex_iff)
  have zygote: "is_system_process ''zygote''"
    by (simp add: is_system_process_def system_names_def startswith_def)
  have app: "\<not> is_system_process ''com.example.app''"
    by (simp add: is_system_process_def system_names_def startswith_def)
  have vendor: "is_system_process ''vendor.qti.something''"
    by (simp add: is_system_process_def system_names_def startswith_def)
  show ?thesis
    using general zygote app vendor by blast
qed

section \<open>The memory parser\<close>

lemma ram_example:
  "collect_ram_stats_from_raw
     ''Total RSS by process:\<newline>    204,800K: com.example.app (pid 5678 / activities)\<newline>5,000,000K: system (pid 1234)\<newline>\<newline>''
   = Inr [\<lparr>app_name = ''system'', app_pid = 1234, ram_mb = 5000000 / 1024\<rparr>,
          \<lparr>app_name = ''com.example.app'', app_pid = 5678, ram_mb = 200\<rparr>]"
  by (simp add: collect_ram_stats_from_raw_def ram_row_def make_app_def sort_ram_desc_def py_eval)

lemma sort_ram_desc_sorted:
  "sorted_wrt (\<lambda>a b. ram_mb b \<le> ram_mb a) (sort_ram_desc apps)"
proof -
  have "sorted (map (\<lambda>a. - ram_mb a) (sort_ram_desc apps))"
    unfolding sort_ram_desc_def by (rule sorted_sort_key)
  then show ?thesis
    by (simp add: sorted_map)
qed

lemma collect_ram_empty: "collect_ram_stats_from_raw [] = Inr []"
  by (simp add: collect_ram_stats_from_raw_def splitlines_def)

text \<open>
  Claim C5: for every input string for which the memory parser returns a sequence, the
  sequence is sorted descending by \<open>ram_mb\<close>: for all indices \<open>i < j\<close> of the result the
  entry at \<open>i\<close> has at least the \<open>ram_mb\<close> of the entry at \<open>j\<close>.
\<close>

theorem ram_stats_sorted:
  assumes "collect_ram_stats_from_raw raw = Inr apps" and "i < j" and "j < length apps"
  shows "ram_mb (apps ! j) \<le> ram_mb (apps ! i)"
proof -
  from assms(1) obtain unsorted where "apps = [] \<or> apps = sort_ram_desc unsorted"
    by (auto simp: collect_ram_stats_from_raw_def split: option.splits sum.splits)
  then have "sorted_wrt (\<lambda>a b. ram_mb b \<le> ram_mb a) apps"
    using sort_ram_desc_sorted by auto
  with assms(2,3) show ?thesis
    by (simp add: sorted_wrt_iff_nth_less)
qed

theorem ram_stats_sorted_witness:
  "collect_ram_stats_from_raw
     ''Total RSS by process:\<newline>    204,800K: com.example.app (pid 5678 / activities)\<newline>5,000,000K: system (pid 1234)\<newline>\<newline>''
   = Inr [\<lparr>app_name = ''system'', app_pid = 1234, ram_mb = 5000000 / 1024\<rparr>,
          \<lparr>app_name = ''com.example.app'', app_pid = 5678, ram_mb = 200\<rparr>]
   \<and> (0::nat) < 1
   \<and> (1::nat) < length [\<lparr>app_name = ''system'', app_pid = 1234, ram_mb = 5000000 / 1024\<rparr>,
          \<lparr>app_name = ''com.example.app'', app_pid = 5678, ram_mb = 200\<rparr>]
   \<and> (200::real) \<le> 5000000 / 1024"
  using ram_stats_sorted [OF ram_example, of 0 1] ram_example
  by simp

section \<open>Free memory\<close>

lemma thermal_bad_value_example:
  "collect_thermal_info_from_raw ''Temperature{mValue=1.2.3, mType=0, mName=AP, mStatus=0}''
     = Inl ValueError"
  by (simp add: collect_thermal_info_from_raw_def thermal_pat_def py_eval)

text \<open>
  Claim C10 says that \<open>collect_stats\<close> returns a negative free memory for every
  collection in which the parsed memory entries sum to more than 4096 MB. It returns
  nothing when a parser raises: here the memory entries sum to about 5083 MB, and the
  thermal text holds the value \<^verbatim>\<open>1.2.3\<close>, on which \<^verbatim>\<open>float\<close> raises ValueError.
\<close>

theorem free_ram_no_result:
  "collect_ram_stats_from_raw (run_adb [''adb'', ''shell'', ''dumpsys'', ''meminfo'']
     (Completed 0 ''Total RSS by process:\<newline>    204,800K: com.example.app (pid 5678 / activities)\<newline>5,000,000K: system (pid 1234)\<newline>\<newline>'' []))
   = Inr [\<lparr>app_name = ''system'', app_pid = 1234, ram_mb = 5000000 / 1024\<rparr>,
          \<lparr>app_name = ''com.example.app'', app_pid = 5678, ram_mb = 200\<rparr>]
   \<and> 4096 < sum_list (map ram_mb
        [\<lparr>app_name = ''system'', app_pid = 1234, ram_mb = 5000000 / 1024\<rparr>,
         \<lparr>app_name = ''com.example.app'', app_pid = 5678, ram_mb = 200\<rparr>])
   \<and> collect_stats (Raised TimeoutExpired)
        (Completed 0 ''Total RSS by process:\<newline>    204,800K: com.example.app (pid 5678 / activities)\<newline>5,000,000K: system (pid 1234)\<newline>\<newline>'' [])
        (Completed 0 ''Temperature{mValue=1.2.3, mType=0, mName=AP, mStatus=0}'' []) 0
       = Inl ValueError"
  by (simp add: collect_stats_def ram_example thermal_bad_value_example)

text \<open>
  Claim C10, as amended: the free memory is not clamped at zero. Whenever the parsed
  memory entries sum to more than the fixed total of 4096 MB and \<open>collect_stats\<close> returns
  a result, the result's free memory is that total minus the sum, which is negative, and
  its memory health is low.
\<close>

theorem free_ram_not_clamped:
  assumes "collect_stats r_cpu r_ram r_thermal now = Inr st"
    and "collect_ram_stats_from_raw (run_adb [''adb'', ''shell'', ''dumpsys'', ''meminfo''] r_ram)
           = Inr ram"
    and "4096 < sum_list (map ram_mb ram)"
  shows "free_ram st = 4096 - sum_list (map ram_mb ram) \<and> free_ram st < 0
         \<and> mem_health st = ''low''"
proof (cases "run_adb [''adb'', ''shell'', ''dumpsys'', ''meminfo''] r_ram = []")
  case True
  with assms(2) have "ram = []"
    by (simp add: collect_ram_empty)
  with assms(3) show ?thesis
    by simp
next
  case False
  with assms(1,2) have "free_ram st = 4096 - sum_list (map ram_mb ram)"
    and "mem_health st = mem_health_of (free_ram st)"
    by (auto simp: collect_stats_def Let_def split: sum.splits if_splits)
  with assms(3) show ?thesis
    by (simp add: mem_health_of_def)
qed

theorem free_ram_not_clamped_witness:
  "collect_stats (Raised TimeoutExpired)
     (Completed 0 ''Total RSS by process:\<newline>    204,800K: com.example.app (pid 5678 / activities)\<newline>5,000,000K: system (pid 1234)\<newline>\<newline>'' [])
     (Raised TimeoutExpired) 0
   = Inr \<lparr>top_cpu = [],
          top_ram = [\<lparr>app_name = ''system'', app_pid = 1234, ram_mb = 5000000 / 1024\<rparr>,
                     \<lparr>app_name = ''com.example.app'', app_pid = 5678, ram_mb = 200\<rparr>],
          thermal = Map.empty, timestamp = 0, mem_health = ''low'',
          free_ram = 4096 - (5000000 / 1024 + 200), total_ram = 4096\<rparr>
   \<and> (4096::real) < 5000000 / 1024 + 200
   \<and> (4096::real) - (5000000 / 1024 + 200) < 0"
proof -
  have run: "collect_stats (Raised TimeoutExpired)
     (Completed 0 ''Total RSS by process:\<newline>    204,800K: com.example.app (pid 5678 / activities)\<newline>5,000,000K: system (pid 1234)\<newline>\<newline>'' [])
     (Raised TimeoutExpired) 0
   = Inr \<lparr>top_cpu = [],
          top_ram = [\<lparr>app_name = ''system'', app_pid = 1234, ram_mb = 5000000 / 1024\<rparr>,
                     \<lparr>app_name = ''com.example.app'', app_pid = 5678, ram_mb = 200\<rparr>],
          thermal = Map.empty, timestamp = 0, mem_health = ''low'',
          free_ram = 4096 - (5000000 / 1024 + 200), total_ram = 4096\<rparr>"
    by (simp add: collect_stats_def ram_example mem_health_of_def)
  have parsed: "collect_ram_stats_from_raw (run_adb [''adb'', ''shell'', ''dumpsys'', ''meminfo'']
     (Completed 0 ''Total RSS by process:\<newline>    204,800K: com.example.app (pid 5678 / activities)\<newline>5,000,000K: system (pid 1234)\<newline>\<newline>'' []))
   = Inr [\<lparr>app_name = ''system'', app_pid = 1234, ram_mb = 5000000 / 1024\<rparr>,
          \<lparr>app_name = ''com.example.app'', app_pid = 5678, ram_mb = 200\<rparr>]"
    by (simp add: ram_example)
  have big: "4096 < sum_list (map ram_mb
      [\<lparr>app_name = ''system'', app_pid = 1234, ram_mb = 5000000 / 1024\<rparr>,
       \<lparr>app_name = ''com.example.app'', app_pid = 5678, ram_mb = 200\<rparr>])"
    by simp
  show ?thesis
    using free_ram_not_clamped [OF run parsed big] run by simp
qed

section \<open>Parsers that raise\<close>

text \<open>
  Claim C3 says that each of the five parsers returns a result for every input string.
  The process-table, memory and thermal parsers convert a matched group with
  \<^verbatim>\<open>float\<close> or \<^verbatim>\<open>int\<close> outside any \<^verbatim>\<open>try\<close>, and their patterns admit groups
  that are no numbers: \<^verbatim>\<open>1.2.3\<close> for \<^verbatim>\<open>[\d.]+\<close> and a lone comma for \<^verbatim>\<open>[\d,]+\<close>.
  On such a line each of the three raises ValueError.
\<close>

theorem parsers_raise_value_error:
  "collect_thermal_info_from_raw ''Temperature{mValue=1.2.3, mType=0, mName=AP, mStatus=0}''
     = Inl ValueError
   \<and> collect_ram_stats_from_raw ''Total RSS by process:\<newline>,K: a (pid 1)'' = Inl ValueError
   \<and> collect_cpu_stats_from_raw
       ''  PID USER         PR  NI VIRT  RES  SHR S[%CPU] %MEM     TIME+ ARGS\<newline> 1203 system       18  -2  17G 252M  80M S 1.2.3  6.8 615:01 system_server''
     = Inl ValueError"
proof -
  have thermal_raises:
    "collect_thermal_info_from_raw ''Temperature{mValue=1.2.3, mType=0, mName=AP, mStatus=0}''
       = Inl ValueError"
    by (simp add: collect_thermal_info_from_raw_def thermal_pat_def py_eval)
  have ram_raises:
    "collect_ram_stats_from_raw ''Total RSS by process:\<newline>,K: a (pid 1)'' = Inl ValueError"
    by (simp add: collect_ram_stats_from_raw_def ram_row_def make_app_def py_eval)
  have cpu_raises:
    "collect_cpu_stats_from_raw
       ''  PID USER         PR  NI VIRT  RES  SHR S[%CPU] %MEM     TIME+ ARGS\<newline> 1203 system       18  -2  17G 252M  80M S 1.2.3  6.8 615:01 system_server''
     = Inl ValueError"
    by (simp add: collect_cpu_stats_from_raw_def strip_ansi_def ansi_escape_def is_header_def
        header_pat_def cpu_row_strict_def make_process_def py_eval)
  show ?thesis
    using thermal_raises ram_raises cpu_raises by blast
qed

section \<open>The thermal parser\<close>

subsection \<open>What a match captures\<close>

lemma first_some_SomeD: "first_some f xs = Some r \<Longrightarrow> \<exists>x\<in>set xs. f x = Some r"
  by (induction xs) (auto split: option.splits)

lemma downfrom_bounds: "j \<in> set (downfrom lo hi) \<Longrightarrow> lo \<le> j \<and> j \<le> hi"
  by (induction hi) (auto split: if_splits)

lemma candidates_bounds: "j \<in> set (candidates lo hi greedy) \<Longrightarrow> lo \<le> j \<and> j \<le> hi"
  by (auto simp: candidates_def dest: downfrom_bounds split: if_splits)

lemma rmatch_caps_extend:
  "rmatch ps s caps = Some (caps', rest) \<Longrightarrow> \<exists>new. caps' = caps @ new"
proof (induction ps s caps arbitrary: caps' rest rule: rmatch.induct)
  case (1 s caps)
  then show ?case by simp
next
  case (2 l ps s caps)
  then show ?case by (auto split: if_splits)
next
  case (3 c ps s caps)
  then show ?case by (auto split: list.splits if_splits)
next
  case (4 c lo greedy cap ps s caps)
  from "4.prems" obtain j where j: "j \<in> set (candidates lo (length (takeWhile c s)) greedy)"
    and m: "rmatch ps (drop j s) (if cap then caps @ [take j s] else caps) = Some (caps', rest)"
    by (auto dest: first_some_SomeD)
  from "4.IH" [OF j m] show ?case
    by (auto split: if_splits)
next
  case (5 q ps s caps)
  then show ?case by (auto split: option.splits)
qed

lemma take_within_takeWhile:
  assumes "j \<le> length (takeWhile c s)" and "x \<in> set (take j s)"
  shows "c x"
proof -
  have "take j s = take j (takeWhile c s @ dropWhile c s)"
    by simp
  also have "\<dots> = take j (takeWhile c s)"
    using assms(1) by (simp del: takeWhile_dropWhile_id)
  finally have "x \<in> set (takeWhile c s)"
    using assms(2) by (auto dest: in_set_takeD)
  then show ?thesis
    by (rule set_takeWhileD [THEN conjunct2])
qed

lemma re_search_SomeD: "re_search p s = Some g \<Longrightarrow> \<exists>s'. re_match p s' = Some g"
  by (induction s) (auto split: option.splits)

lemma thermal_value_class:
  assumes "re_match thermal_pat s = Some [val, nm]" and "x \<in> set val"
  shows "cls_digit_dot x"
proof -
  define s1 where "s1 = drop (length ''Temperature{mValue='') s"
  define tail where "tail = [Lit '', mType='', Rep is_digit 1 True False,
      Lit '', mName='', Rep cls_sensor 1 True True,
      Lit '', mStatus='', Rep is_digit 1 True False, Lit ''}'']"
  from assms(1) obtain rest where
    "rmatch (Lit ''Temperature{mValue='' # Rep cls_digit_dot 1 True True # tail) s [] = Some ([val, nm], rest)"
    by (auto simp: re_match_def thermal_pat_def tail_def)
  then obtain j where j: "j \<in> set (candidates 1 (length (takeWhile cls_digit_dot s1)) True)"
    and m: "rmatch tail (drop j s1) [take j s1] = Some ([val, nm], rest)"
    by (auto simp: s1_def split: if_splits dest!: first_some_SomeD)
  from rmatch_caps_extend [OF m] have "val = take j s1"
    by auto
  moreover from j have "j \<le> length (takeWhile cls_digit_dot s1)"
    by (auto dest: candidates_bounds)
  ultimately show ?thesis
    using assms(2) take_within_takeWhile by metis
qed

lemma parse_decimal_nonneg: "parse_decimal b = Some r \<Longrightarrow> 0 \<le> r"
  by (auto simp: parse_decimal_def Let_def split: if_splits option.splits)

lemma set_py_strip: "set (py_strip s) \<subseteq> set s"
proof -
  have "set (py_strip s) = set (dropWhile is_space (rev (dropWhile is_space s)))"
    by (simp add: py_strip_def)
  also have "\<dots> \<subseteq> set (rev (dropWhile is_space s))"
    by (auto dest: set_dropWhileD)
  also have "\<dots> \<subseteq> set s"
    by (auto dest: set_dropWhileD)
  finally show ?thesis .
qed

lemma digit_dot_plain:
  assumes "cls_digit_dot c"
  shows "c \<noteq> CHR ''-''" and "c \<noteq> CHR ''+''" and "c \<noteq> CHR ''_''" and "to_lower c = c"
    and "c \<noteq> CHR ''i''" and "c \<noteq> CHR ''n''"
  using assms by (auto simp: cls_digit_dot_def is_digit_def is_upper_def to_lower_def code_def Let_def)

subsection \<open>Digits and points convert to a nonnegative float\<close>

lemma digit_dot_not_word:
  assumes "\<forall>c\<in>set t. cls_digit_dot c"
  shows "t \<noteq> ''inf''" and "t \<noteq> ''infinity''" and "t \<noteq> ''nan''"
proof -
  have i: "\<not> cls_digit_dot CHR ''i''" and n: "\<not> cls_digit_dot CHR ''n''"
    by (simp_all add: cls_digit_dot_def is_digit_def code_def)
  show "t \<noteq> ''inf''" using assms i by auto
  show "t \<noteq> ''infinity''" using assms i by auto
  show "t \<noteq> ''nan''" using assms n by auto
qed

lemma py_float_digit_dot:
  assumes "py_float s = Some v" and "\<forall>c\<in>set s. cls_digit_dot c"
  shows "fge v 0"
proof -
  define t where "t = py_strip s"
  have cls: "\<forall>c\<in>set t. cls_digit_dot c"
    using assms(2) set_py_strip [of s] by (auto simp: t_def)
  then have no_us: "filter (\<lambda>c. c \<noteq> CHR ''_'') t = t"
    by (auto simp: filter_id_conv dest: digit_dot_plain(3))
  have sign: "split_sign t = (False, t)"
  proof (cases t)
    case Nil
    then show ?thesis by (simp add: split_sign_def)
  next
    case (Cons c cs)
    with cls have "cls_digit_dot c" by simp
    then have "c \<noteq> CHR ''-''" "c \<noteq> CHR ''+''"
      by (rule digit_dot_plain)+
    with Cons show ?thesis by (simp add: split_sign_def)
  qed
  have low: "map to_lower t = t"
    using cls by (simp add: map_idI digit_dot_plain(4))
  note words = digit_dot_not_word [OF cls]
  have "py_float s = (if \<not> underscores_ok None t then None else map_option Fin (parse_decimal t))"
    by (simp add: py_float_def Let_def t_def [symmetric] no_us sign low words option.map_ident)
  with assms(1) obtain r where "parse_decimal t = Some r" and "v = Fin r"
    by (auto split: if_splits)
  then show ?thesis
    by (simp add: parse_decimal_nonneg)
qed

subsection \<open>Every stored temperature is nonnegative\<close>

lemma thermal_rows_step:
  "thermal_rows (line # ls) sensors = Inr sensors' \<Longrightarrow>
     (re_search thermal_pat line = None \<and> thermal_rows ls sensors = Inr sensors')
     \<or> (\<exists>val nm w. re_search thermal_pat line = Some [val, nm] \<and> py_float val = Some w
           \<and> thermal_rows ls (sensors(nm \<mapsto> w)) = Inr sensors')"
  by (simp split: option.splits list.splits)

lemma thermal_rows_nonneg:
  assumes "thermal_rows ls sensors = Inr sensors'"
    and "\<And>k w. sensors k = Some w \<Longrightarrow> fge w 0"
    and "sensors' nm = Some v"
  shows "fge v 0"
  using assms
proof (induction ls arbitrary: sensors)
  case Nil
  then show ?case by auto
next
  case (Cons line ls)
  from thermal_rows_step [OF Cons.prems(1)] show ?case
  proof (elim disjE conjE exE)
    assume "thermal_rows ls sensors = Inr sensors'"
    from Cons.IH [OF this Cons.prems(2) Cons.prems(3)] show ?thesis .
  next
    fix val name' w
    assume found: "re_search thermal_pat line = Some [val, name']"
      and w: "py_float val = Some w"
      and rest: "thermal_rows ls (sensors(name' \<mapsto> w)) = Inr sensors'"
    from found obtain s' where "re_match thermal_pat s' = Some [val, name']"
      by (auto dest: re_search_SomeD)
    then have "\<forall>c\<in>set val. cls_digit_dot c"
      by (auto dest: thermal_value_class)
    with w have "fge w 0"
      by (rule py_float_digit_dot)
    with Cons.prems(2) have "\<And>k u. (sensors(name' \<mapsto> w)) k = Some u \<Longrightarrow> fge u 0"
      by (auto split: if_splits)
    from Cons.IH [OF rest this Cons.prems(3)] show ?thesis .
  qed
qed

lemma thermal_negative_example:
  "collect_thermal_info_from_raw ''Temperature{mValue=-5.0, mType=0, mName=AP, mStatus=0}''
     = Inr Map.empty"
  by (simp add: collect_thermal_info_from_raw_def thermal_pat_def py_eval)

lemma thermal_example:
  "collect_thermal_info_from_raw ''Temperature{mValue=38.1, mType=0, mName=AP, mStatus=0}''
     = Inr [''AP'' \<mapsto> Fin 38.1]"
  by (simp add: collect_thermal_info_from_raw_def thermal_pat_def py_eval)

text \<open>
  Claim C8: for every input string for which the thermal parser returns a mapping, every
  temperature in the mapping is nonnegative. The pattern's value group is a run of digits
  and points, so no minus sign is captured, and a line that reports a negative value
  matches nowhere and is dropped.
\<close>

theorem thermal_values_nonneg:
  "(collect_thermal_info_from_raw raw = Inr sensors \<and> sensors nm = Some v \<longrightarrow> fge v 0)
   \<and> (re_search thermal_pat line = Some [val, sensor] \<longrightarrow> CHR ''-'' \<notin> set val)
   \<and> collect_thermal_info_from_raw ''Temperature{mValue=-5.0, mType=0, mName=AP, mStatus=0}''
       = Inr Map.empty"
proof (intro conjI impI)
  assume "re_search thermal_pat line = Some [val, sensor]"
  then obtain s' where "re_match thermal_pat s' = Some [val, sensor]"
    by (auto dest: re_search_SomeD)
  then have "\<forall>c\<in>set val. cls_digit_dot c"
    by (auto dest: thermal_value_class)
  then show "CHR ''-'' \<notin> set val"
    by (auto dest: digit_dot_plain(1))
next
  assume "collect_thermal_info_from_raw raw = Inr sensors \<and> sensors nm = Some v"
  then have rows: "thermal_rows (splitlines raw) Map.empty = Inr sensors"
    and v: "sensors nm = Some v"
    by (simp_all add: collect_thermal_info_from_raw_def)
  show "fge v 0"
    by (rule thermal_rows_nonneg [OF rows _ v]) simp
next
  show "collect_thermal_info_from_raw ''Temperature{mValue=-5.0, mType=0, mName=AP, mStatus=0}''
       = Inr Map.empty"
    by (rule thermal_negative_example)
qed

theorem thermal_values_nonneg_witness:
  "collect_thermal_info_from_raw ''Temperature{mValue=38.1, mType=0, mName=AP, mStatus=0}''
     = Inr [''AP'' \<mapsto> Fin 38.1]
   \<and> [''AP'' \<mapsto> Fin 38.1] ''AP'' = Some (Fin 38.1)
   \<and> fge (Fin 38.1) 0"
  using thermal_values_nonneg [of "''Temperature{mValue=38.1, mType=0, mName=AP, mStatus=0}''"
      "[''AP'' \<mapsto> Fin 38.1]" "''AP''" "Fin 38.1"] thermal_example
  by simp

section \<open>The frame-profile parser\<close>









end
